theory Spec2Isabelle
  imports Main "HOL-Library.Word" "HOL-Library.Multiset"
begin

section \<open>JavaScript strings\<close>

text \<open>
  A JavaScript string is a sequence of UTF-16 code units. The literals of the source are
  ASCII, written here through \<open>of_ascii\<close>.
\<close>

type_synonym js_string = "16 word list"

definition of_ascii :: "string \<Rightarrow> js_string" where
  "of_ascii s = map (\<lambda>c. of_nat (of_char c)) s"

text \<open>
  \<open>String.prototype.trim\<close> removes, at both ends, the code units that ECMAScript calls
  WhiteSpace (TAB, VT, FF, ZWNBSP and the Unicode space separators) or LineTerminator
  (LF, CR, LS, PS).
\<close>

definition is_white_space :: "16 word \<Rightarrow> bool" where
  "is_white_space c =
     (c = 0x9 \<or> c = 0xB \<or> c = 0xC \<or> c = 0xFEFF \<or>
      c = 0x20 \<or> c = 0xA0 \<or> c = 0x1680 \<or> (0x2000 \<le> c \<and> c \<le> 0x200A) \<or>
      c = 0x202F \<or> c = 0x205F \<or> c = 0x3000 \<or>
      c = 0xA \<or> c = 0xD \<or> c = 0x2028 \<or> c = 0x2029)"

definition trim :: "js_string \<Rightarrow> js_string" where
  "trim s = rev (dropWhile is_white_space (rev (dropWhile is_white_space s)))"

fun join :: "js_string \<Rightarrow> js_string list \<Rightarrow> js_string" where
  "join sep [] = []"
| "join sep [x] = x"
| "join sep (x # y # ys) = x @ sep @ join sep (y # ys)"

section \<open>JSON documents written by the client\<close>

text \<open>
  The values the client hands to \<open>JSON.stringify\<close> are built from strings, arrays and
  objects only. An object keeps its properties in insertion order.
\<close>

datatype json = JStr js_string | JArr "json list" | JObj "(js_string \<times> json) list"

definition hex_digit :: "nat \<Rightarrow> 16 word" where
  "hex_digit n = (if n < 10 then of_nat (48 + n) else of_nat (87 + n))"

definition unicode_escape :: "16 word \<Rightarrow> js_string" where
  "unicode_escape c =
     [0x5C, 0x75, hex_digit (unat c div 4096), hex_digit (unat c div 256 mod 16),
      hex_digit (unat c div 16 mod 16), hex_digit (unat c mod 16)]"

definition is_high_surrogate :: "16 word \<Rightarrow> bool" where
  "is_high_surrogate c = (0xD800 \<le> c \<and> c \<le> 0xDBFF)"

definition is_low_surrogate :: "16 word \<Rightarrow> bool" where
  "is_low_surrogate c = (0xDC00 \<le> c \<and> c \<le> 0xDFFF)"

definition escape_unit :: "16 word \<Rightarrow> js_string" where
  "escape_unit c =
     (if c = 0x8 then [0x5C, 0x62]
      else if c = 0x9 then [0x5C, 0x74]
      else if c = 0xA then [0x5C, 0x6E]
      else if c = 0xC then [0x5C, 0x66]
      else if c = 0xD then [0x5C, 0x72]
      else if c = 0x22 then [0x5C, 0x22]
      else if c = 0x5C then [0x5C, 0x5C]
      else if c < 0x20 \<or> is_high_surrogate c \<or> is_low_surrogate c then unicode_escape c
      else [c])"

text \<open>
  The body of QuoteJSONString: a surrogate pair is one code point and is copied, a lone
  surrogate is escaped.
\<close>

fun quote_units :: "js_string \<Rightarrow> js_string" where
  "quote_units [] = []"
| "quote_units [c] = escape_unit c"
| "quote_units (c # d # cs) =
     (if is_high_surrogate c \<and> is_low_surrogate d then c # d # quote_units cs
      else escape_unit c @ quote_units (d # cs))"

definition quote_json :: "js_string \<Rightarrow> js_string" where
  "quote_json s = [0x22] @ quote_units s @ [0x22]"

text \<open>
  \<open>JSON.stringify(value, null, space)\<close>: \<open>gap\<close> is the indentation unit (empty when
  no \<open>space\<close> is given) and \<open>ind\<close> the current indentation.
\<close>

fun serialize :: "js_string \<Rightarrow> js_string \<Rightarrow> json \<Rightarrow> js_string" where
  "serialize gap ind (JStr s) = quote_json s"
| "serialize gap ind (JArr xs) =
     (if xs = [] then of_ascii ''[]''
      else if gap = []
        then of_ascii ''['' @ join (of_ascii '','') (map (serialize gap (ind @ gap)) xs)
             @ of_ascii '']''
        else of_ascii ''['' @ [0xA] @ (ind @ gap)
             @ join (of_ascii '','' @ [0xA] @ (ind @ gap)) (map (serialize gap (ind @ gap)) xs)
             @ [0xA] @ ind @ of_ascii '']'')"
| "serialize gap ind (JObj kvs) =
     (if kvs = [] then of_ascii ''{}''
      else if gap = []
        then of_ascii ''{''
             @ join (of_ascii '','')
                 (map (\<lambda>(k, v). quote_json k @ of_ascii '':'' @ serialize gap (ind @ gap) v) kvs)
             @ of_ascii ''}''
        else of_ascii ''{'' @ [0xA] @ (ind @ gap)
             @ join (of_ascii '','' @ [0xA] @ (ind @ gap))
                 (map (\<lambda>(k, v). quote_json k @ of_ascii '': '' @ serialize gap (ind @ gap) v) kvs)
             @ [0xA] @ ind @ of_ascii ''}'')"

definition JSON_stringify :: "json \<Rightarrow> js_string" where
  "JSON_stringify v = serialize [] [] v"

definition JSON_stringify_2 :: "json \<Rightarrow> js_string" where
  "JSON_stringify_2 v = serialize (of_ascii ''  '') [] v"

section \<open>PromptToDAX\<close>

text \<open>
  \<open>handleSubmit\<close> of the prompt form. The result is the argument with which
  \<open>onGenerate\<close> is called, \<open>None\<close> when it is not called.
\<close>

definition handleSubmit :: "js_string \<Rightarrow> bool \<Rightarrow> js_string option" where
  "handleSubmit prompt loading =
     (if trim prompt \<noteq> [] \<and> \<not> loading then Some (trim prompt) else None)"

section \<open>DashboardBuilder\<close>

text \<open>A row of the schema query: the three selected columns.\<close>

record schema_row =
  column_name :: js_string
  data_type :: js_string
  is_nullable :: js_string

text \<open>The component's state hooks.\<close>

record builder_state =
  columns :: "schema_row list"
  loading :: bool
  generatedDAX :: js_string
  generatedSQL :: js_string
  error :: "js_string option"

text \<open>The two environment variables read by \<open>getApiBaseUrl\<close>; \<open>None\<close> is an unset one.\<close>

record build_env =
  VITE_AI_API_URL :: "js_string option"
  REACT_APP_AI_API_URL :: "js_string option"

definition env_truthy :: "js_string option \<Rightarrow> bool" where
  "env_truthy v = (case v of None \<Rightarrow> False | Some u \<Rightarrow> u \<noteq> [])"

definition getApiBaseUrl :: "build_env \<Rightarrow> js_string" where
  "getApiBaseUrl env =
     (if env_truthy (VITE_AI_API_URL env) then the (VITE_AI_API_URL env)
      else if env_truthy (REACT_APP_AI_API_URL env) then the (REACT_APP_AI_API_URL env)
      else of_ascii ''http://localhost:8000'')"

text \<open>
  What the server may answer. \<open>JsonObject\<close> lists the properties of the parsed body,
  each key once. A property that the client reads is absent (\<open>Undefined\<close>), \<open>null\<close> or
  a string, the type the client declares for it. \<open>response.json()\<close> throws on a body
  that is not JSON; on the body \<open>null\<close> the first property access throws; a body that
  is a number, a boolean, a string or an array has neither property and behaves as
  \<open>JsonObject []\<close>.
\<close>

datatype js_field = Undefined | Null | Str js_string

datatype json_body = JsonThrows | JsonNull | JsonObject "(js_string \<times> js_field) list"

datatype fetch_outcome = FetchThrows | Response bool json_body

definition get_field :: "(js_string \<times> js_field) list \<Rightarrow> js_string \<Rightarrow> js_field" where
  "get_field data k = (case map_of data k of None \<Rightarrow> Undefined | Some v \<Rightarrow> v)"

text \<open>The expression \<open>v || ''\<close>.\<close>

definition or_empty :: "js_field \<Rightarrow> js_string" where
  "or_empty v = (case v of Str s \<Rightarrow> (if s \<noteq> [] then s else []) | _ \<Rightarrow> [])"

record http_request =
  url :: js_string
  http_method :: js_string
  content_type :: js_string
  body :: js_string

definition request_payload :: "js_string \<Rightarrow> js_string \<Rightarrow> schema_row list \<Rightarrow> json" where
  "request_payload table prompt cols =
     JObj [(of_ascii ''table'', JStr table),
           (of_ascii ''prompt'', JStr prompt),
           (of_ascii ''columns'',
              JArr (map (\<lambda>col. JObj [(of_ascii ''name'', JStr (column_name col)),
                                      (of_ascii ''type'', JStr (data_type col))]) cols))]"

definition generate_request ::
  "build_env \<Rightarrow> js_string \<Rightarrow> js_string \<Rightarrow> schema_row list \<Rightarrow> http_request" where
  "generate_request env table prompt cols =
     \<lparr>url = getApiBaseUrl env @ of_ascii ''/api/generate-dashboard'',
      http_method = of_ascii ''POST'',
      content_type = of_ascii ''application/json'',
      body = JSON_stringify (request_payload table prompt cols)\<rparr>"

text \<open>
  The \<open>try\<close> block of \<open>handleGenerateDashboard\<close> after the call of \<open>fetch\<close>:
  \<open>Inl\<close> is a thrown exception, \<open>Inr\<close> the state after both setters.
\<close>

datatype exn = NetworkError | GenerateFailed | JsonSyntaxError | TypeError

definition generate_try :: "fetch_outcome \<Rightarrow> builder_state \<Rightarrow> exn + builder_state" where
  "generate_try outcome st =
     (case outcome of
        FetchThrows \<Rightarrow> Inl NetworkError
      | Response ok payload \<Rightarrow>
          if \<not> ok then Inl GenerateFailed
          else (case payload of
                  JsonThrows \<Rightarrow> Inl JsonSyntaxError
                | JsonNull \<Rightarrow> Inl TypeError
                | JsonObject data \<Rightarrow>
                    Inr (st\<lparr>generatedDAX := or_empty (get_field data (of_ascii ''dax'')),
                            generatedSQL := or_empty (get_field data (of_ascii ''sql''))\<rparr>)))"

text \<open>
  \<open>handleGenerateDashboard\<close>, with the list of requests handed to \<open>fetch\<close> so far as
  part of the state and the outcome of this call's \<open>fetch\<close> as an argument.
\<close>

definition handleGenerateDashboard ::
  "build_env \<Rightarrow> js_string \<Rightarrow> js_string \<Rightarrow> fetch_outcome \<Rightarrow>
   builder_state \<times> http_request list \<Rightarrow> builder_state \<times> http_request list" where
  "handleGenerateDashboard env table prompt outcome s =
     (let st1 = (fst s)\<lparr>loading := True, error := None\<rparr>;
          sent = snd s @ [generate_request env table prompt (columns st1)];
          st2 = (case generate_try outcome st1 of
                   Inr st' \<Rightarrow> st'
                 | Inl e \<Rightarrow>
                     st1\<lparr>error := Some (of_ascii ''Failed to generate dashboard. Please try again.'')\<rparr>)
      in (st2\<lparr>loading := False\<rparr>, sent))"

text \<open>
  The wiring \<open>onGenerate={handleGenerateDashboard} loading={loading}\<close>: a submission of
  the prompt form inside the builder.
\<close>

definition submitPrompt ::
  "build_env \<Rightarrow> js_string \<Rightarrow> js_string \<Rightarrow> fetch_outcome \<Rightarrow>
   builder_state \<times> http_request list \<Rightarrow> builder_state \<times> http_request list" where
  "submitPrompt env table prompt outcome s =
     (case handleSubmit prompt (loading (fst s)) of
        None \<Rightarrow> s
      | Some p \<Rightarrow> handleGenerateDashboard env table p outcome s)"


text \<open>\<open>Object.keys\<close> of a document.\<close>

fun json_keys :: "json \<Rightarrow> js_string list" where
  "json_keys (JObj kvs) = map fst kvs"
| "json_keys _ = []"

subsection \<open>The schema query\<close>

text \<open>
  The relation \<open>information_schema.columns\<close> of the store, with the columns the query
  names, and the store as the client sees it: the catalog, whether the connection
  works, and the statements it has been sent with their parameters.
\<close>

record catalog_column =
  cat_table_schema :: js_string
  cat_table_name :: js_string
  cat_column_name :: js_string
  cat_data_type :: js_string
  cat_is_nullable :: js_string
  cat_ordinal_position :: nat

record database =
  information_schema_columns :: "catalog_column list"
  reachable :: bool
  statements :: "(js_string \<times> js_string list) list"

definition schema_query_text :: js_string where
  "schema_query_text =
     [0xA] @ of_ascii ''        SELECT column_name, data_type, is_nullable''
     @ [0xA] @ of_ascii ''        FROM information_schema.columns ''
     @ [0xA] @ of_ascii ''        WHERE table_name = $1''
     @ [0xA] @ of_ascii ''        ORDER BY ordinal_position''
     @ [0xA] @ of_ascii ''      ''"

text \<open>
  The rows that statement denotes on a catalog, \<open>$1\<close> bound to \<open>t\<close>: selection on
  \<open>table_name\<close> (in whatever schema the table is), ordering by \<open>ordinal_position\<close>,
  projection on the three columns. Rows of equal position keep their catalog order
  here; the statement leaves their order open.
\<close>

definition schema_projection :: "catalog_column \<Rightarrow> schema_row" where
  "schema_projection r =
     \<lparr>column_name = cat_column_name r, data_type = cat_data_type r,
      is_nullable = cat_is_nullable r\<rparr>"

definition schema_query :: "catalog_column list \<Rightarrow> js_string \<Rightarrow> schema_row list" where
  "schema_query cat t =
     map schema_projection
       (sort_key cat_ordinal_position (filter (\<lambda>r. cat_table_name r = t) cat))"

text \<open>
  What the schema of a table is: the triples of the columns of the one table of that
  name in that schema, in declaration order. The table list of the dashboard
  (\<open>fetchTables\<close>) offers the base tables of the schema \<open>public\<close> only.
\<close>

definition declared_columns ::
  "catalog_column list \<Rightarrow> js_string \<Rightarrow> js_string \<Rightarrow> schema_row list" where
  "declared_columns cat schema t =
     map schema_projection
       (sort_key cat_ordinal_position
          (filter (\<lambda>r. cat_table_schema r = schema \<and> cat_table_name r = t) cat))"

text \<open>\<open>dbs.raw\<close> on that statement: \<open>None\<close> is a rejected promise.\<close>

definition dbs_raw_schema :: "js_string \<Rightarrow> database \<Rightarrow> schema_row list option \<times> database" where
  "dbs_raw_schema t db =
     (if reachable db then Some (schema_query (information_schema_columns db) t) else None,
      db\<lparr>statements := statements db @ [(schema_query_text, [t])]\<rparr>)"

definition fetchTableSchema ::
  "js_string \<Rightarrow> builder_state \<times> database \<Rightarrow> builder_state \<times> database" where
  "fetchTableSchema table s =
     (let st1 = (fst s)\<lparr>loading := True, error := None\<rparr>;
          r = dbs_raw_schema table (snd s);
          st2 = (case fst r of
                   Some rows \<Rightarrow> st1\<lparr>columns := rows\<rparr>
                 | None \<Rightarrow> st1\<lparr>error := Some (of_ascii ''Failed to fetch table schema'')\<rparr>)
      in (st2\<lparr>loading := False\<rparr>, snd r))"

section \<open>PowerBIExport\<close>

text \<open>
  \<open>new Blob([s])\<close> does not keep the code units of \<open>s\<close>: the string is first converted
  to a string of scalar values, in which a surrogate pair stays and every surrogate
  without its partner becomes U+FFFD, and the blob holds the UTF-8 encoding of the
  result.
\<close>

definition is_surrogate :: "16 word \<Rightarrow> bool" where
  "is_surrogate c = (is_high_surrogate c \<or> is_low_surrogate c)"

fun usv_string :: "js_string \<Rightarrow> js_string" where
  "usv_string [] = []"
| "usv_string [c] = (if is_surrogate c then [0xFFFD] else [c])"
| "usv_string (c # d # cs) =
     (if is_high_surrogate c \<and> is_low_surrogate d then c # d # usv_string cs
      else if is_surrogate c then 0xFFFD # usv_string (d # cs)
      else c # usv_string (d # cs))"

text \<open>\<open>String.prototype.isWellFormed\<close>: no surrogate stands without its partner.\<close>

fun well_formed :: "js_string \<Rightarrow> bool" where
  "well_formed [] = True"
| "well_formed [c] = (\<not> is_surrogate c)"
| "well_formed (c # d # cs) =
     (if is_high_surrogate c \<and> is_low_surrogate d then well_formed cs
      else \<not> is_surrogate c \<and> well_formed (d # cs))"

text \<open>The code points of a string, a surrogate pair being one, and UTF-8.\<close>

fun scalar_values :: "js_string \<Rightarrow> nat list" where
  "scalar_values [] = []"
| "scalar_values [c] = [unat c]"
| "scalar_values (c # d # cs) =
     (if is_high_surrogate c \<and> is_low_surrogate d
      then (0x10000 + (unat c - 0xD800) * 0x400 + (unat d - 0xDC00)) # scalar_values cs
      else unat c # scalar_values (d # cs))"

definition utf8_scalar :: "nat \<Rightarrow> 8 word list" where
  "utf8_scalar v =
     (if v < 0x80 then [of_nat v]
      else if v < 0x800 then [of_nat (0xC0 + v div 0x40), of_nat (0x80 + v mod 0x40)]
      else if v < 0x10000
        then [of_nat (0xE0 + v div 0x1000), of_nat (0x80 + v div 0x40 mod 0x40),
              of_nat (0x80 + v mod 0x40)]
        else [of_nat (0xF0 + v div 0x40000), of_nat (0x80 + v div 0x1000 mod 0x40),
              of_nat (0x80 + v div 0x40 mod 0x40), of_nat (0x80 + v mod 0x40)])"

text \<open>The bytes of \<open>new Blob([s])\<close>.\<close>

definition blob_bytes :: "js_string \<Rightarrow> 8 word list" where
  "blob_bytes s = concat (map utf8_scalar (scalar_values (usv_string s)))"

text \<open>
  A download: the \<open>download\<close> attribute of the anchor that is clicked, and the text
  (the string of scalar values that the blob's bytes encode) and the type of the blob
  behind it.
\<close>

record download =
  filename :: js_string
  content :: js_string
  mime_type :: js_string

definition file_bytes :: "download \<Rightarrow> 8 word list" where
  "file_bytes d = blob_bytes (content d)"

definition pbidsContent :: "build_env \<Rightarrow> js_string \<Rightarrow> json" where
  "pbidsContent env table =
     JObj [(of_ascii ''version'', JStr (of_ascii ''1.0'')),
           (of_ascii ''connections'',
              JArr [JObj [(of_ascii ''filePath'',
                             JStr (getApiBaseUrl env @ of_ascii ''/api/dashboard/'' @ table
                                   @ of_ascii ''/data'')),
                          (of_ascii ''name'', JStr table)]])]"

definition generatePBIDS :: "build_env \<Rightarrow> js_string \<Rightarrow> download" where
  "generatePBIDS env table =
     \<lparr>filename = table @ of_ascii ''_dashboard.pbids'',
      content = usv_string (JSON_stringify_2 (pbidsContent env table)),
      mime_type = of_ascii ''application/json''\<rparr>"

definition downloadDAX :: "js_string \<Rightarrow> js_string \<Rightarrow> download" where
  "downloadDAX table daxCode =
     \<lparr>filename = table @ of_ascii ''_dashboard.dax'', content = usv_string daxCode,
      mime_type = of_ascii ''text/plain''\<rparr>"

definition downloadSQL :: "js_string \<Rightarrow> js_string \<Rightarrow> download" where
  "downloadSQL table sqlCode =
     \<lparr>filename = table @ of_ascii ''_query.sql'', content = usv_string sqlCode,
      mime_type = of_ascii ''text/plain''\<rparr>"

text \<open>The three buttons of the component and their \<open>onClick\<close> handlers.\<close>

datatype export_button = DownloadPbids | DownloadDax | DownloadSql

definition export_click ::
  "build_env \<Rightarrow> js_string \<Rightarrow> js_string \<Rightarrow> js_string \<Rightarrow> export_button \<Rightarrow> download" where
  "export_click env table daxCode sqlCode b =
     (case b of
        DownloadPbids \<Rightarrow> generatePBIDS env table
      | DownloadDax \<Rightarrow> downloadDAX table daxCode
      | DownloadSql \<Rightarrow> downloadSQL table sqlCode)"

section \<open>The builder as a whole\<close>

text \<open>
  The render guard \<open>generatedDAX && <PowerBIExport ... />\<close>: the export component is
  mounted, with these two props, only while the DAX state is a non-empty string.
\<close>

definition export_panel :: "builder_state \<Rightarrow> (js_string \<times> js_string) option" where
  "export_panel st =
     (if generatedDAX st \<noteq> [] then Some (generatedDAX st, generatedSQL st) else None)"

text \<open>
  The user's actions inside the builder that reach the handlers above: submitting the
  prompt form (with the outcome of the request it may cause) and clicking an export
  button, which exists only while the export component is mounted.
\<close>

datatype ui_event = PromptSubmitted js_string fetch_outcome | ExportClicked export_button

definition builder_event ::
  "build_env \<Rightarrow> js_string \<Rightarrow> ui_event \<Rightarrow> builder_state \<times> http_request list \<Rightarrow>
   (builder_state \<times> http_request list) \<times> download option" where
  "builder_event env table ev s =
     (case ev of
        PromptSubmitted prompt outcome \<Rightarrow> (submitPrompt env table prompt outcome s, None)
      | ExportClicked b \<Rightarrow>
          (s, case export_panel (fst s) of
                None \<Rightarrow> None
              | Some (daxCode, sqlCode) \<Rightarrow> Some (export_click env table daxCode sqlCode b)))"

text \<open>The builder as it is mounted (the initial values of its state hooks) and a build
  with neither environment variable set.\<close>

definition initial_state :: builder_state where
  "initial_state =
     \<lparr>columns = [], loading = False, generatedDAX = [], generatedSQL = [], error = None\<rparr>"

definition default_env :: build_env where
  "default_env = \<lparr>VITE_AI_API_URL = None, REACT_APP_AI_API_URL = None\<rparr>"

section \<open>The consistency validator\<close>

text \<open>
  Modelled from the spec: the data model of section 3 (ColumnMeta, RawGenerationOutput,
  TranslationResult). The sources at hand hold the client only; no validator and none
  of these types occur in them.
\<close>

record column_meta =
  name :: js_string
  meta_data_type :: js_string
  nullable :: bool

record raw_generation_output =
  sql_text :: js_string
  dax_text :: js_string

datatype result_status = Accepted | Rejected

record translation_result =
  sql :: js_string
  dax :: js_string
  status :: result_status
  rejection_reason :: "js_string option"

text \<open>
  Modelled from the spec: \<open>validate\<close> of section 4.4, which is not among the sources.
  Step 1, the extraction of the candidate identifiers of a SQL text and of a DAX text,
  is described there only in outline, so the two extractors are arguments; each yields
  \<open>None\<close> on a text it cannot tokenize, which is rejected as \<open>Unparseable\<close>. Steps 2
  to 4 follow in the order of the spec: the first extracted identifier that is not a
  column name of the schema rejects with \<open>UnknownColumn: <name>\<close>, then two empty
  texts reject with \<open>EmptyGeneration\<close>, and everything else is accepted.
\<close>

definition reject :: "raw_generation_output \<Rightarrow> js_string \<Rightarrow> translation_result" where
  "reject raw reason =
     \<lparr>sql = sql_text raw, dax = dax_text raw, status = Rejected,
      rejection_reason = Some reason\<rparr>"

definition accept :: "raw_generation_output \<Rightarrow> translation_result" where
  "accept raw =
     \<lparr>sql = sql_text raw, dax = dax_text raw, status = Accepted, rejection_reason = None\<rparr>"

definition validate ::
  "(js_string \<Rightarrow> js_string list option) \<Rightarrow> (js_string \<Rightarrow> js_string list option) \<Rightarrow>
   raw_generation_output \<Rightarrow> column_meta list \<Rightarrow> translation_result" where
  "validate sql_identifiers dax_identifiers raw schema =
     (case sql_identifiers (sql_text raw) of
        None \<Rightarrow> reject raw (of_ascii ''Unparseable'')
      | Some xs \<Rightarrow>
          (case dax_identifiers (dax_text raw) of
             None \<Rightarrow> reject raw (of_ascii ''Unparseable'')
           | Some ys \<Rightarrow>
               (case find (\<lambda>n. n \<notin> set (map name schema)) (xs @ ys) of
                  Some n \<Rightarrow> reject raw (of_ascii ''UnknownColumn: '' @ n)
                | None \<Rightarrow>
                    if sql_text raw = [] \<and> dax_text raw = []
                    then reject raw (of_ascii ''EmptyGeneration'')
                    else accept raw)))"

text \<open>
  Modelled from the spec: one extractor for DAX, the bracketed references of section 4.4
  step 1. The column part of \<open>table[column]\<close> is the text between the brackets; a
  bracket that is not closed, or one that is opened or closed twice, cannot be tokenized.
  The first argument is the reference being read, if any.
\<close>

fun bracketed :: "js_string option \<Rightarrow> js_string \<Rightarrow> js_string list option" where
  "bracketed None [] = Some []"
| "bracketed (Some acc) [] = None"
| "bracketed None (c # cs) =
     (if c = 0x5B then bracketed (Some []) cs
      else if c = 0x5D then None
      else bracketed None cs)"
| "bracketed (Some acc) (c # cs) =
     (if c = 0x5D then map_option ((#) acc) (bracketed None cs)
      else if c = 0x5B then None
      else bracketed (Some (acc @ [c])) cs)"

definition bracketed_references :: "js_string \<Rightarrow> js_string list option" where
  "bracketed_references s = bracketed None s"

section \<open>Example data\<close>

text \<open>Concrete inputs at which the theorems below are evaluated.\<close>

definition nl :: js_string where
  "nl = [0xA]"

definition dq :: js_string where
  "dq = [0x22]"

definition displayed_state :: builder_state where
  "displayed_state =
     initial_state\<lparr>generatedDAX := of_ascii ''M = COUNTROWS(t)'',
                    generatedSQL := of_ascii ''SELECT 1''\<rparr>"



definition rejected_answer :: "(js_string \<times> js_field) list" where
  "rejected_answer =
     [(of_ascii ''sql'', Str []),
      (of_ascii ''dax'', Str (of_ascii ''M = SUM(transactions[nonexistent_col])'')),
      (of_ascii ''status'', Str (of_ascii ''rejected'')),
      (of_ascii ''reason'', Str (of_ascii ''UnknownColumn: nonexistent_col''))]"

definition id_row :: schema_row where
  "id_row =
     \<lparr>column_name = of_ascii ''id'', data_type = of_ascii ''integer'',
      is_nullable = of_ascii ''NO''\<rparr>"

definition amount_row :: schema_row where
  "amount_row =
     \<lparr>column_name = of_ascii ''amount'', data_type = of_ascii ''double precision'',
      is_nullable = of_ascii ''YES''\<rparr>"

definition example_catalog :: "catalog_column list" where
  "example_catalog =
     [\<lparr>cat_table_schema = of_ascii ''public'', cat_table_name = of_ascii ''transactions'',
       cat_column_name = of_ascii ''amount'', cat_data_type = of_ascii ''double precision'',
       cat_is_nullable = of_ascii ''YES'', cat_ordinal_position = 2\<rparr>,
      \<lparr>cat_table_schema = of_ascii ''public'', cat_table_name = of_ascii ''fraud_scores'',
       cat_column_name = of_ascii ''fraud_prob'', cat_data_type = of_ascii ''double precision'',
       cat_is_nullable = of_ascii ''YES'', cat_ordinal_position = 1\<rparr>,
      \<lparr>cat_table_schema = of_ascii ''public'', cat_table_name = of_ascii ''transactions'',
       cat_column_name = of_ascii ''id'', cat_data_type = of_ascii ''integer'',
       cat_is_nullable = of_ascii ''NO'', cat_ordinal_position = 1\<rparr>]"

definition changed_by_row :: schema_row where
  "changed_by_row =
     \<lparr>column_name = of_ascii ''changed_by'', data_type = of_ascii ''text'',
      is_nullable = of_ascii ''YES''\<rparr>"

definition two_schema_catalog :: "catalog_column list" where
  "two_schema_catalog =
     [\<lparr>cat_table_schema = of_ascii ''public'', cat_table_name = of_ascii ''transactions'',
       cat_column_name = of_ascii ''id'', cat_data_type = of_ascii ''integer'',
       cat_is_nullable = of_ascii ''NO'', cat_ordinal_position = 1\<rparr>,
      \<lparr>cat_table_schema = of_ascii ''public'', cat_table_name = of_ascii ''transactions'',
       cat_column_name = of_ascii ''amount'', cat_data_type = of_ascii ''double precision'',
       cat_is_nullable = of_ascii ''YES'', cat_ordinal_position = 2\<rparr>,
      \<lparr>cat_table_schema = of_ascii ''audit'', cat_table_name = of_ascii ''transactions'',
       cat_column_name = of_ascii ''id'', cat_data_type = of_ascii ''integer'',
       cat_is_nullable = of_ascii ''NO'', cat_ordinal_position = 1\<rparr>,
      \<lparr>cat_table_schema = of_ascii ''audit'', cat_table_name = of_ascii ''transactions'',
       cat_column_name = of_ascii ''changed_by'', cat_data_type = of_ascii ''text'',
       cat_is_nullable = of_ascii ''YES'', cat_ordinal_position = 2\<rparr>]"

definition two_schema_database :: database where
  "two_schema_database =
     \<lparr>information_schema_columns = two_schema_catalog, reachable = True, statements = []\<rparr>"

definition lone_surrogate_dax :: js_string where
  "lone_surrogate_dax = of_ascii ''M = '' @ dq @ [0xD83D] @ dq"

definition example_database :: database where
  "example_database =
     \<lparr>information_schema_columns = example_catalog, reachable = True, statements = []\<rparr>"

definition transactions_schema :: "column_meta list" where
  "transactions_schema =
     [\<lparr>name = of_ascii ''date'', meta_data_type = of_ascii ''date'', nullable = True\<rparr>,
      \<lparr>name = of_ascii ''fraud_flag'', meta_data_type = of_ascii ''integer'', nullable = True\<rparr>,
      \<lparr>name = of_ascii ''amount'', meta_data_type = of_ascii ''double precision'',
       nullable = True\<rparr>]"

definition hallucinated_output :: raw_generation_output where
  "hallucinated_output =
     \<lparr>sql_text = [], dax_text = of_ascii ''M = SUM(transactions[nonexistent_col])''\<rparr>"

definition grounded_output :: raw_generation_output where
  "grounded_output =
     \<lparr>sql_text = [], dax_text = of_ascii ''M = COUNT(transactions[fraud_flag])''\<rparr>"

section \<open>Properties of trim\<close>

lemma dropWhile_all: "dropWhile P xs = [] \<longleftrightarrow> list_all P xs"
  by (induction xs) auto

lemma trim_eq_Nil_iff: "trim s = [] \<longleftrightarrow> list_all is_white_space s"
proof
  assume "trim s = []"
  then have "dropWhile is_white_space (rev (dropWhile is_white_space s)) = []"
    by (simp add: trim_def)
  then have "list_all is_white_space (rev (dropWhile is_white_space s))"
    by (simp only: dropWhile_all)
  then have a: "list_all is_white_space (dropWhile is_white_space s)"
    by (simp only: list_all_rev)
  show "list_all is_white_space s"
  proof (cases "dropWhile is_white_space s")
    case Nil then show ?thesis by (simp only: dropWhile_all)
  next
    case (Cons x xs)
    then have "\<not> is_white_space x" using hd_dropWhile[of is_white_space s] by simp
    with a Cons show ?thesis by simp
  qed
next
  assume "list_all is_white_space s"
  then have "dropWhile is_white_space s = []" by (simp only: dropWhile_all)
  then show "trim s = []" by (simp only: trim_def rev.simps dropWhile.simps)
qed

lemma trim_decomp:
  "s = takeWhile is_white_space s @ trim s
       @ rev (takeWhile is_white_space (rev (dropWhile is_white_space s)))"
proof -
  let ?d = "dropWhile is_white_space s"
  have "rev ?d = takeWhile is_white_space (rev ?d) @ dropWhile is_white_space (rev ?d)"
    by simp
  then have "?d = rev (takeWhile is_white_space (rev ?d) @ dropWhile is_white_space (rev ?d))"
    by (metis rev_rev_ident)
  then have "?d = trim s @ rev (takeWhile is_white_space (rev ?d))"
    unfolding trim_def rev_append .
  moreover have "s = takeWhile is_white_space s @ ?d" by simp
  ultimately show ?thesis by metis
qed

lemma trim_hd: "trim s \<noteq> [] \<Longrightarrow> \<not> is_white_space (hd (trim s))"
proof -
  assume ne: "trim s \<noteq> []"
  let ?d = "dropWhile is_white_space s"
  let ?t = "rev (takeWhile is_white_space (rev ?d))"
  have d: "?d = trim s @ ?t" using trim_decomp[of s]
    by (metis append_eq_append_conv takeWhile_dropWhile_id same_append_eq)
  have "?d \<noteq> []" using d ne by (metis append_is_Nil_conv)
  then have "\<not> is_white_space (hd ?d)" by (rule hd_dropWhile)
  moreover have "hd ?d = hd (trim s)" using d ne by (metis hd_append2)
  ultimately show ?thesis by simp
qed

lemma trim_last: "trim s \<noteq> [] \<Longrightarrow> \<not> is_white_space (last (trim s))"
proof -
  assume ne: "trim s \<noteq> []"
  let ?r = "dropWhile is_white_space (rev (dropWhile is_white_space s))"
  have "?r \<noteq> []" using ne by (simp add: trim_def)
  then have "\<not> is_white_space (hd ?r)" by (rule hd_dropWhile)
  moreover have "last (trim s) = hd ?r" using \<open>?r \<noteq> []\<close> by (simp add: trim_def last_rev)
  ultimately show ?thesis by simp
qed

lemma trim_idem: "trim (trim s) = trim s"
proof (cases "trim s = []")
  case True then show ?thesis unfolding True by (simp add: trim_def)
next
  case False
  then obtain x xs where c: "trim s = x # xs" by (cases "trim s") auto
  have h: "\<not> is_white_space x" using trim_hd[OF False] c by simp
  have l: "\<not> is_white_space (last (x # xs))" using trim_last[OF False] c by simp
  have "dropWhile is_white_space (x # xs) = x # xs" using h by simp
  moreover have "dropWhile is_white_space (rev (x # xs)) = rev (x # xs)"
    using l by (metis dropWhile_eq_self_iff hd_rev list.distinct(1) rev_is_Nil_conv)
  ultimately show ?thesis using c by (simp add: trim_def)
qed


lemma trim_surrounded:
  "\<exists>pre suf. s = pre @ trim s @ suf \<and> list_all is_white_space pre \<and> list_all is_white_space suf"
proof -
  let ?pre = "takeWhile is_white_space s"
  let ?suf = "rev (takeWhile is_white_space (rev (dropWhile is_white_space s)))"
  have "list_all is_white_space ?pre"
    unfolding list_all_iff by (metis set_takeWhileD)
  moreover have "list_all is_white_space ?suf"
    unfolding list_all_iff by (metis set_rev set_takeWhileD)
  moreover have "s = ?pre @ trim s @ ?suf" by (rule trim_decomp)
  ultimately show ?thesis by blast
qed

section \<open>The prompt form\<close>

lemma handleSubmit_whitespace: "list_all is_white_space prompt \<Longrightarrow> handleSubmit prompt ld = None"
  using trim_eq_Nil_iff[of prompt] by (simp only: handleSubmit_def simp_thms if_False)

text \<open>
  C3. A prompt that is empty or consists of white space only never reaches the generator:
  \<open>handleSubmit\<close> does not call \<open>onGenerate\<close>, and a submission of such a prompt in
  the builder leaves the state and the list of requests handed to \<open>fetch\<close> as they were.
\<close>

theorem blank_prompt_issues_no_request:
  assumes "list_all is_white_space prompt"
  shows "handleSubmit prompt ld = None \<and>
         submitPrompt env table prompt outcome (st, sent) = (st, sent)"
  using handleSubmit_whitespace[OF assms] by (simp add: submitPrompt_def)

theorem blank_prompt_issues_no_request_witness:
  "list_all is_white_space [0x20, 0x9, 0xA, 0x3000] \<and>
   handleSubmit [0x20, 0x9, 0xA, 0x3000] False = None \<and>
   submitPrompt default_env (of_ascii ''transactions'') [0x20, 0x9, 0xA, 0x3000] FetchThrows
     (initial_state, []) = (initial_state, [])"
proof -
  have h: "list_all is_white_space [0x20, 0x9, 0xA, 0x3000]"
    by (simp add: is_white_space_def)
  show ?thesis
    using h blank_prompt_issues_no_request[OF h, of False default_env
        "of_ascii ''transactions''" FetchThrows initial_state "[]"]
    by simp
qed

text \<open>
  C8. Whenever \<open>handleSubmit\<close> passes a prompt on, that prompt is the textarea's value
  with the white space at both ends removed: it is \<open>trim\<close> of the input, it is not
  empty, it neither starts nor ends with white space, the input is this prompt between
  two runs of white space, and it is the prompt that \<open>handleGenerateDashboard\<close> receives.
\<close>

theorem submitted_prompt_is_trimmed:
  assumes "handleSubmit prompt (loading (fst s)) = Some p"
  shows "p = trim prompt \<and> p \<noteq> [] \<and> trim p = p \<and>
         \<not> is_white_space (hd p) \<and> \<not> is_white_space (last p) \<and>
         (\<exists>pre suf. prompt = pre @ p @ suf \<and>
            list_all is_white_space pre \<and> list_all is_white_space suf) \<and>
         submitPrompt env table prompt outcome s = handleGenerateDashboard env table p outcome s"
proof -
  from assms have p: "p = trim prompt" and ne: "trim prompt \<noteq> []"
    by (auto simp: handleSubmit_def split: if_splits)
  have "submitPrompt env table prompt outcome s = handleGenerateDashboard env table p outcome s"
    using assms by (simp add: submitPrompt_def)
  then show ?thesis
    using p ne trim_idem[of prompt] trim_hd[OF ne] trim_last[OF ne] trim_surrounded[of prompt]
    by simp
qed

theorem submitted_prompt_is_trimmed_witness:
  "handleSubmit (of_ascii ''  Show me total fraud by month '' @ [0xA]) (loading (fst (initial_state, [] :: http_request list)))
     = Some (of_ascii ''Show me total fraud by month'') \<and>
   trim (of_ascii ''  Show me total fraud by month '' @ [0xA]) = of_ascii ''Show me total fraud by month''"
proof -
  have h: "handleSubmit (of_ascii ''  Show me total fraud by month '' @ [0xA])
             (loading (fst (initial_state, ([] :: http_request list))))
           = Some (of_ascii ''Show me total fraud by month'')"
    by (simp add: handleSubmit_def trim_def of_ascii_def is_white_space_def initial_state_def)
  show ?thesis
    using h submitted_prompt_is_trimmed[OF h] by simp
qed

section \<open>Generating a dashboard\<close>

lemma fetchTableSchema_columns:
  "reachable db \<Longrightarrow>
   columns (fst (fetchTableSchema t (st, db))) = schema_query (information_schema_columns db) t"
  by (simp add: fetchTableSchema_def dbs_raw_schema_def Let_def)

lemma handleGenerateDashboard_sent:
  "snd (handleGenerateDashboard env table prompt outcome s)
     = snd s @ [generate_request env table prompt (columns (fst s))]"
  by (simp add: handleGenerateDashboard_def Let_def)

lemma handleGenerateDashboard_success:
  "fst (handleGenerateDashboard env table prompt (Response True (JsonObject data)) s)
     = (fst s)\<lparr>loading := False, error := None,
                generatedDAX := or_empty (get_field data (of_ascii ''dax'')),
                generatedSQL := or_empty (get_field data (of_ascii ''sql''))\<rparr>"
  by (simp add: handleGenerateDashboard_def generate_try_def Let_def)

lemma handleGenerateDashboard_failure:
  assumes "\<not> (\<exists>data. outcome = Response True (JsonObject data))"
  shows "fst (handleGenerateDashboard env table prompt outcome s)
     = (fst s)\<lparr>loading := False,
                error := Some (of_ascii ''Failed to generate dashboard. Please try again.'')\<rparr>"
  using assms
  by (simp add: handleGenerateDashboard_def generate_try_def Let_def
      split: fetch_outcome.splits json_body.splits)


text \<open>
  C9. When the call fails (\<open>fetch\<close> throws, or the response is not ok), the state after
  \<open>handleGenerateDashboard\<close> is the state before it with the error message set and
  \<open>loading\<close> false: the generated DAX and SQL, and the columns, are untouched. And
  whenever the generated DAX or SQL differs from before, the response was ok and its
  body parsed to a value whose properties could be read.
\<close>

theorem failed_generation_keeps_code:
  "((outcome = FetchThrows \<or> (\<exists>b. outcome = Response False b)) \<longrightarrow>
      fst (handleGenerateDashboard env table prompt outcome (st, sent))
        = st\<lparr>loading := False,
             error := Some (of_ascii ''Failed to generate dashboard. Please try again.'')\<rparr>) \<and>
   ((generatedDAX (fst (handleGenerateDashboard env table prompt outcome (st, sent)))
       \<noteq> generatedDAX st \<or>
     generatedSQL (fst (handleGenerateDashboard env table prompt outcome (st, sent)))
       \<noteq> generatedSQL st) \<longrightarrow>
      (\<exists>data. outcome = Response True (JsonObject data)))"
proof (cases "\<exists>data. outcome = Response True (JsonObject data)")
  case True
  then show ?thesis by auto
next
  case False
  then show ?thesis by (simp add: handleGenerateDashboard_failure)
qed

theorem failed_generation_keeps_code_witness:
  "generatedDAX (fst (handleGenerateDashboard default_env (of_ascii ''transactions'')
       (of_ascii ''Show top 10'') (Response False JsonThrows) (displayed_state, [])))
     = of_ascii ''M = COUNTROWS(t)'' \<and>
   generatedSQL (fst (handleGenerateDashboard default_env (of_ascii ''transactions'')
       (of_ascii ''Show top 10'') (Response False JsonThrows) (displayed_state, [])))
     = of_ascii ''SELECT 1'' \<and>
   error (fst (handleGenerateDashboard default_env (of_ascii ''transactions'')
       (of_ascii ''Show top 10'') (Response False JsonThrows) (displayed_state, [])))
     = Some (of_ascii ''Failed to generate dashboard. Please try again.'')"
  using failed_generation_keeps_code[of "Response False JsonThrows" default_env
      "of_ascii ''transactions''" "of_ascii ''Show top 10''" displayed_state "[]"]
  by (simp add: displayed_state_def initial_state_def)

text \<open>
  C6. When the body of an ok response is an object that lacks \<open>dax\<close> or lacks \<open>sql\<close>,
  the call succeeds (no error is set), the state of the missing property is the empty
  string, and the other one, when it is a string, is stored as it is.
\<close>

theorem missing_field_is_empty_string:
  assumes "map_of data (of_ascii ''dax'') = None \<or> map_of data (of_ascii ''sql'') = None"
  shows "error (fst (handleGenerateDashboard env table prompt (Response True (JsonObject data)) (st, sent))) = None \<and>
         (map_of data (of_ascii ''dax'') = None \<longrightarrow>
            generatedDAX (fst (handleGenerateDashboard env table prompt (Response True (JsonObject data)) (st, sent))) = [] \<and>
            (\<forall>s. map_of data (of_ascii ''sql'') = Some (Str s) \<longrightarrow>
               generatedSQL (fst (handleGenerateDashboard env table prompt (Response True (JsonObject data)) (st, sent))) = s)) \<and>
         (map_of data (of_ascii ''sql'') = None \<longrightarrow>
            generatedSQL (fst (handleGenerateDashboard env table prompt (Response True (JsonObject data)) (st, sent))) = [] \<and>
            (\<forall>s. map_of data (of_ascii ''dax'') = Some (Str s) \<longrightarrow>
               generatedDAX (fst (handleGenerateDashboard env table prompt (Response True (JsonObject data)) (st, sent))) = s))"
  by (simp add: handleGenerateDashboard_success get_field_def or_empty_def)

theorem missing_field_is_empty_string_witness:
  "map_of [(of_ascii ''sql'', Str (of_ascii ''SELECT 1''))] (of_ascii ''dax'') = None \<and>
   error (fst (handleGenerateDashboard default_env (of_ascii ''transactions'') (of_ascii ''Show top 10'')
      (Response True (JsonObject [(of_ascii ''sql'', Str (of_ascii ''SELECT 1''))])) (initial_state, []))) = None \<and>
   generatedDAX (fst (handleGenerateDashboard default_env (of_ascii ''transactions'') (of_ascii ''Show top 10'')
      (Response True (JsonObject [(of_ascii ''sql'', Str (of_ascii ''SELECT 1''))])) (initial_state, []))) = [] \<and>
   generatedSQL (fst (handleGenerateDashboard default_env (of_ascii ''transactions'') (of_ascii ''Show top 10'')
      (Response True (JsonObject [(of_ascii ''sql'', Str (of_ascii ''SELECT 1''))])) (initial_state, [])))
     = of_ascii ''SELECT 1''"
proof -
  have h: "map_of [(of_ascii ''sql'', Str (of_ascii ''SELECT 1''))] (of_ascii ''dax'') = None"
    by (simp add: of_ascii_def)
  show ?thesis
    using h missing_field_is_empty_string[OF disjI1, OF h, of default_env "of_ascii ''transactions''"
        "of_ascii ''Show top 10''" initial_state "[]"]
    by (simp add: get_field_def or_empty_def of_ascii_def)
qed




text \<open>
  C5, as the claim states it, fails: the document the client posts has three
  properties, not two; the third carries the column metadata.
\<close>

theorem request_carries_columns_counterexample:
  "json_keys (request_payload (of_ascii ''transactions'') (of_ascii ''Show top 10'') [amount_row])
     = [of_ascii ''table'', of_ascii ''prompt'', of_ascii ''columns''] \<and>
   [of_ascii ''table'', of_ascii ''prompt'', of_ascii ''columns'']
     \<noteq> [of_ascii ''table'', of_ascii ''prompt'']"
  by (simp add: request_payload_def)

text \<open>
  C5, amended. The request consists of exactly the properties \<open>table\<close>, \<open>prompt\<close> and
  \<open>columns\<close>, in this order; \<open>columns\<close> is the list of \<open>{name, type}\<close> of the columns
  in the client's state, which after a schema fetch that the store answered are the rows
  of the client's own schema query. So the column metadata travels with the request.
\<close>

theorem request_fields:
  "snd (handleGenerateDashboard env table prompt outcome (st, sent))
     = sent @ [generate_request env table prompt (columns st)] \<and>
   body (generate_request env table prompt cols) = JSON_stringify (request_payload table prompt cols) \<and>
   request_payload table prompt cols
     = JObj [(of_ascii ''table'', JStr table), (of_ascii ''prompt'', JStr prompt),
             (of_ascii ''columns'',
                JArr (map (\<lambda>col. JObj [(of_ascii ''name'', JStr (column_name col)),
                                        (of_ascii ''type'', JStr (data_type col))]) cols))] \<and>
   json_keys (request_payload table prompt cols)
     = [of_ascii ''table'', of_ascii ''prompt'', of_ascii ''columns''] \<and>
   (reachable db \<longrightarrow>
      snd (handleGenerateDashboard env table prompt outcome
             (fst (fetchTableSchema table (st, db)), sent))
        = sent @ [generate_request env table prompt
                    (schema_query (information_schema_columns db) table)])"
  by (simp add: handleGenerateDashboard_sent generate_request_def request_payload_def
      fetchTableSchema_columns)

theorem request_fields_witness:
  "reachable example_database \<and>
   snd (handleGenerateDashboard default_env (of_ascii ''transactions'') (of_ascii ''Show top 10'')
          FetchThrows
          (fst (fetchTableSchema (of_ascii ''transactions'') (initial_state, example_database)), []))
     = [generate_request default_env (of_ascii ''transactions'') (of_ascii ''Show top 10'')
          [id_row, amount_row]] \<and>
   body (generate_request default_env (of_ascii ''transactions'') (of_ascii ''Show top 10'') [amount_row])
     = of_ascii ''{'' @ dq @ of_ascii ''table'' @ dq @ of_ascii '':'' @ dq @ of_ascii ''transactions'' @ dq
       @ of_ascii '','' @ dq @ of_ascii ''prompt'' @ dq @ of_ascii '':'' @ dq @ of_ascii ''Show top 10'' @ dq
       @ of_ascii '','' @ dq @ of_ascii ''columns'' @ dq @ of_ascii '':[{''
       @ dq @ of_ascii ''name'' @ dq @ of_ascii '':'' @ dq @ of_ascii ''amount'' @ dq
       @ of_ascii '','' @ dq @ of_ascii ''type'' @ dq @ of_ascii '':'' @ dq @ of_ascii ''double precision'' @ dq
       @ of_ascii ''}]}''"
proof -
  have r: "reachable example_database"
    by (simp add: example_database_def)
  have q: "schema_query (information_schema_columns example_database) (of_ascii ''transactions'')
             = [id_row, amount_row]"
    by (simp add: example_database_def example_catalog_def schema_query_def
        schema_projection_def id_row_def amount_row_def of_ascii_def)
  show ?thesis
    using r q
      request_fields[of default_env "of_ascii ''transactions''" "of_ascii ''Show top 10''"
        FetchThrows initial_state "[]" "[amount_row]" example_database]
    by (simp add: JSON_stringify_def amount_row_def quote_json_def escape_unit_def
        is_high_surrogate_def is_low_surrogate_def of_ascii_def dq_def)
qed

section \<open>Exporting\<close>

text \<open>
  C7, as the claim states it, fails: the client never looks at a status. An answer that
  calls itself rejected, for a column that does not exist, is displayed like any other,
  and a click on "Download DAX" then exports its DAX text.
\<close>

theorem rejected_result_is_exported_counterexample:
  "get_field rejected_answer (of_ascii ''status'') = Str (of_ascii ''rejected'') \<and>
   snd (builder_event default_env (of_ascii ''transactions'') (ExportClicked DownloadDax)
          (handleGenerateDashboard default_env (of_ascii ''transactions'') (of_ascii ''Show top 10'')
             (Response True (JsonObject rejected_answer)) (initial_state, [])))
     = Some (downloadDAX (of_ascii ''transactions'') (of_ascii ''M = SUM(transactions[nonexistent_col])''))"
  by (simp add: builder_event_def export_panel_def export_click_def handleGenerateDashboard_success
      rejected_answer_def get_field_def or_empty_def of_ascii_def split: prod.splits)

text \<open>
  C7, amended. Export is possible exactly while the generated DAX is a non-empty string:
  the export component is mounted if and only if it is, an action of the user yields a
  download if and only if it is a click on an export button while it is, and that
  download is the one of the clicked button for the DAX and SQL on display. No other
  action yields a download.
\<close>

theorem export_needs_click_and_dax:
  "(export_panel st \<noteq> None \<longleftrightarrow> generatedDAX st \<noteq> []) \<and>
   (snd (builder_event env table ev (st, sent)) \<noteq> None \<longleftrightarrow>
      (\<exists>b. ev = ExportClicked b) \<and> generatedDAX st \<noteq> []) \<and>
   (generatedDAX st \<noteq> [] \<longrightarrow>
      builder_event env table (ExportClicked b) (st, sent)
        = ((st, sent), Some (export_click env table (generatedDAX st) (generatedSQL st) b))) \<and>
   (generatedDAX st = [] \<longrightarrow> builder_event env table (ExportClicked b) (st, sent) = ((st, sent), None))"
  by (auto simp: builder_event_def export_panel_def split: ui_event.splits)

theorem export_needs_click_and_dax_witness:
  "generatedDAX displayed_state \<noteq> [] \<and>
   builder_event default_env (of_ascii ''transactions'') (ExportClicked DownloadSql) (displayed_state, [])
     = ((displayed_state, []),
        Some (downloadSQL (of_ascii ''transactions'') (of_ascii ''SELECT 1''))) \<and>
   generatedDAX initial_state = [] \<and>
   builder_event default_env (of_ascii ''transactions'') (ExportClicked DownloadSql) (initial_state, [])
     = ((initial_state, []), None)"
proof -
  have d: "generatedDAX displayed_state \<noteq> []"
    by (simp add: displayed_state_def of_ascii_def)
  have i: "generatedDAX initial_state = []"
    by (simp add: initial_state_def)
  show ?thesis
    using d i
      export_needs_click_and_dax[of displayed_state default_env "of_ascii ''transactions''"
        "ExportClicked DownloadSql" "[]" DownloadSql]
      export_needs_click_and_dax[of initial_state default_env "of_ascii ''transactions''"
        "ExportClicked DownloadSql" "[]" DownloadSql]
    by (simp add: export_click_def displayed_state_def)
qed

subsection \<open>Strings of scalar values\<close>

lemma well_formed_Cons: "\<not> is_surrogate c \<Longrightarrow> well_formed (c # s) = well_formed s"
  by (cases s) (auto simp: is_surrogate_def)

lemma well_formed_append: "well_formed a \<Longrightarrow> well_formed b \<Longrightarrow> well_formed (a @ b)"
proof (induction a rule: well_formed.induct)
  case 1
  then show ?case by simp
next
  case (2 c)
  then show ?case by (simp add: well_formed_Cons)
next
  case (3 c d cs)
  then show ?case by (auto split: if_splits)
qed

lemma usv_string_well_formed: "well_formed s \<Longrightarrow> usv_string s = s"
  by (induction s rule: well_formed.induct) (auto split: if_splits)

lemma not_surrogate_FFFD: "\<not> is_surrogate 0xFFFD"
  by (simp add: is_surrogate_def is_high_surrogate_def is_low_surrogate_def)

lemma well_formed_usv_string: "well_formed (usv_string s)"
  by (induction s rule: usv_string.induct)
     (auto simp: well_formed_Cons not_surrogate_FFFD)

lemma length_usv_string: "length (usv_string s) = length s"
  by (induction s rule: usv_string.induct) auto

lemma usv_string_nth:
  "i < length s \<Longrightarrow>
   usv_string s ! i = s ! i \<or> (is_surrogate (s ! i) \<and> usv_string s ! i = 0xFFFD)"
proof (induction s arbitrary: i rule: usv_string.induct)
  case 1
  then show ?case by simp
next
  case (2 c)
  then show ?case by simp
next
  case (3 c d cs)
  show ?case
  proof (cases "is_high_surrogate c \<and> is_low_surrogate d")
    case True
    show ?thesis
    proof (cases i)
      case 0
      then show ?thesis using True by simp
    next
      case (Suc j)
      show ?thesis
      proof (cases j)
        case 0
        then show ?thesis using True Suc by simp
      next
        case (Suc k)
        then have "k < length cs" using "3.prems" \<open>i = Suc j\<close> by simp
        from "3.IH"(1)[OF True this] show ?thesis using True \<open>i = Suc j\<close> Suc by simp
      qed
    qed
  next
    case False
    show ?thesis
    proof (cases i)
      case 0
      then show ?thesis using False by simp
    next
      case (Suc j)
      then have j: "j < length (d # cs)" using "3.prems" by simp
      show ?thesis
      proof (cases "is_surrogate c")
        case True
        from "3.IH"(2)[OF False True j] show ?thesis using False True Suc by auto
      next
        case F: False
        from "3.IH"(3)[OF False F j] show ?thesis using False F Suc by auto
      qed
    qed
  qed
qed

lemma not_surrogate_small: "unat c < 0xD800 \<Longrightarrow> \<not> is_surrogate c"
  by (simp add: is_surrogate_def is_high_surrogate_def is_low_surrogate_def word_le_nat_alt)

lemma unat_of_nat_small: "k < 65536 \<Longrightarrow> unat (of_nat k :: 16 word) = k"
  by (simp add: unat_of_nat)

lemma well_formed_of_ascii: "well_formed (of_ascii s)"
proof (induction s)
  case Nil
  then show ?case by (simp add: of_ascii_def)
next
  case (Cons c s)
  have lt: "(of_char c :: nat) < 256" by (rule nat_of_char_less_256)
  then have "(of_char c :: nat) < 65536" by linarith
  then have "unat (of_nat (of_char c) :: 16 word) = of_char c" by (rule unat_of_nat_small)
  with lt have "unat (of_nat (of_char c) :: 16 word) < 0xD800" by linarith
  then have "\<not> is_surrogate (of_nat (of_char c))" by (rule not_surrogate_small)
  then show ?case using Cons by (simp add: of_ascii_def well_formed_Cons)
qed

lemma hex_digit_small:
  assumes "n < 16"
  shows "unat (hex_digit n) < 0xD800"
proof (cases "n < 10")
  case True
  have h: "hex_digit n = of_nat (48 + n)" by (simp only: hex_digit_def True if_True)
  have lt: "48 + n < 65536" using assms by simp
  have "unat (hex_digit n) = 48 + n" unfolding h by (rule unat_of_nat_small[OF lt])
  then show ?thesis using assms by linarith
next
  case False
  have h: "hex_digit n = of_nat (87 + n)" by (simp only: hex_digit_def False if_False)
  have lt: "87 + n < 65536" using assms by simp
  have "unat (hex_digit n) = 87 + n" unfolding h by (rule unat_of_nat_small[OF lt])
  then show ?thesis using assms by linarith
qed

lemma well_formed_unicode_escape: "well_formed (unicode_escape c)"
proof -
  have "unat c < 65536" using unsigned_less[of c] by simp
  then have a: "unat c div 4096 < 16" by simp
  have b: "unat c div 256 mod 16 < 16" "unat c div 16 mod 16 < 16" "unat c mod 16 < 16" by simp_all
  have s: "\<not> is_surrogate 0x5C" "\<not> is_surrogate 0x75"
    by (simp_all add: is_surrogate_def is_high_surrogate_def is_low_surrogate_def)
  show ?thesis
    using a b s
    by (simp add: unicode_escape_def well_formed_Cons not_surrogate_small hex_digit_small)
qed

lemma well_formed_escape_unit: "well_formed (escape_unit c)"
  by (simp add: escape_unit_def well_formed_unicode_escape is_surrogate_def
      is_high_surrogate_def is_low_surrogate_def)

lemma well_formed_quote_units: "well_formed (quote_units s)"
  by (induction s rule: quote_units.induct)
     (auto simp: well_formed_escape_unit well_formed_append)

lemma well_formed_quote_json: "well_formed (quote_json s)"
proof -
  have q: "\<not> is_surrogate 0x22"
    by (simp add: is_surrogate_def is_high_surrogate_def is_low_surrogate_def)
  then have "well_formed [0x22]" by simp
  then have "well_formed (quote_units s @ [0x22])"
    using well_formed_quote_units well_formed_append by blast
  then show ?thesis using q by (simp add: quote_json_def well_formed_Cons)
qed

lemma well_formed_nl: "well_formed nl"
  by (simp add: nl_def is_surrogate_def is_high_surrogate_def is_low_surrogate_def)

lemma blob_bytes_usv_string: "blob_bytes (usv_string s) = blob_bytes s"
  by (simp add: blob_bytes_def usv_string_well_formed well_formed_usv_string)

subsection \<open>The three files\<close>

lemma pbids_text:
  "JSON_stringify_2 (pbidsContent env table)
     = of_ascii ''{'' @ nl
       @ of_ascii ''  '' @ quote_json (of_ascii ''version'') @ of_ascii '': ''
         @ quote_json (of_ascii ''1.0'') @ of_ascii '','' @ nl
       @ of_ascii ''  '' @ quote_json (of_ascii ''connections'') @ of_ascii '': ['' @ nl
       @ of_ascii ''    {'' @ nl
       @ of_ascii ''      '' @ quote_json (of_ascii ''filePath'') @ of_ascii '': ''
         @ quote_json (getApiBaseUrl env @ of_ascii ''/api/dashboard/'' @ table @ of_ascii ''/data'')
         @ of_ascii '','' @ nl
       @ of_ascii ''      '' @ quote_json (of_ascii ''name'') @ of_ascii '': '' @ quote_json table @ nl
       @ of_ascii ''    }'' @ nl
       @ of_ascii ''  ]'' @ nl
       @ of_ascii ''}''"
  by (simp add: pbidsContent_def JSON_stringify_2_def of_ascii_def nl_def)

lemma pbids_text_well_formed: "well_formed (JSON_stringify_2 (pbidsContent env table))"
  unfolding pbids_text
  by (intro well_formed_append well_formed_of_ascii well_formed_quote_json well_formed_nl)

text \<open>
  C10, as the claim states it, fails for the DAX and SQL files: a code string with a
  surrogate that has no partner does not reach the file as it is; the file holds U+FFFD
  in its place.
\<close>

theorem lone_surrogate_is_replaced_counterexample:
  "content (downloadDAX (of_ascii ''transactions'') lone_surrogate_dax)
     = of_ascii ''M = '' @ dq @ [0xFFFD] @ dq \<and>
   content (downloadDAX (of_ascii ''transactions'') lone_surrogate_dax) \<noteq> lone_surrogate_dax \<and>
   file_bytes (downloadDAX (of_ascii ''transactions'') lone_surrogate_dax)
     = [0x4D, 0x20, 0x3D, 0x20, 0x22, 0xEF, 0xBF, 0xBD, 0x22]"
  by (simp add: downloadDAX_def file_bytes_def blob_bytes_def utf8_scalar_def
      lone_surrogate_dax_def dq_def of_ascii_def is_surrogate_def is_high_surrogate_def
      is_low_surrogate_def)

text \<open>
  C10, amended. The three downloads are functions of the table name, the API base URL
  and the two code strings alone. The \<open>.pbids\<close> file is named
  \<open><table>_dashboard.pbids\<close> and holds \<open>JSON.stringify\<close>, indented by two, of the
  object with \<open>version\<close> "1.0" and one connection whose \<open>filePath\<close> is
  \<open><API base URL>/api/dashboard/<table>/data\<close> and whose \<open>name\<close> is the table; its text
  is spelled out. The DAX file is named \<open><table>_dashboard.dax\<close> and the SQL file
  \<open><table>_query.sql\<close>; each holds, in UTF-8, its code string with every surrogate that
  has no partner replaced by U+FFFD: a well-formed string of the same length that
  differs from the code string only at such surrogates, and the code string itself
  whenever that is well-formed.
\<close>

theorem export_artifacts:
  "generatePBIDS env table
     = \<lparr>filename = table @ of_ascii ''_dashboard.pbids'',
        content = JSON_stringify_2
          (JObj [(of_ascii ''version'', JStr (of_ascii ''1.0'')),
                 (of_ascii ''connections'',
                    JArr [JObj [(of_ascii ''filePath'',
                                   JStr (getApiBaseUrl env @ of_ascii ''/api/dashboard/'' @ table
                                         @ of_ascii ''/data'')),
                                (of_ascii ''name'', JStr table)]])]),
        mime_type = of_ascii ''application/json''\<rparr> \<and>
   content (generatePBIDS env table)
     = of_ascii ''{'' @ nl
       @ of_ascii ''  '' @ quote_json (of_ascii ''version'') @ of_ascii '': ''
         @ quote_json (of_ascii ''1.0'') @ of_ascii '','' @ nl
       @ of_ascii ''  '' @ quote_json (of_ascii ''connections'') @ of_ascii '': ['' @ nl
       @ of_ascii ''    {'' @ nl
       @ of_ascii ''      '' @ quote_json (of_ascii ''filePath'') @ of_ascii '': ''
         @ quote_json (getApiBaseUrl env @ of_ascii ''/api/dashboard/'' @ table @ of_ascii ''/data'')
         @ of_ascii '','' @ nl
       @ of_ascii ''      '' @ quote_json (of_ascii ''name'') @ of_ascii '': '' @ quote_json table @ nl
       @ of_ascii ''    }'' @ nl
       @ of_ascii ''  ]'' @ nl
       @ of_ascii ''}'' \<and>
   downloadDAX table daxCode
     = \<lparr>filename = table @ of_ascii ''_dashboard.dax'', content = usv_string daxCode,
        mime_type = of_ascii ''text/plain''\<rparr> \<and>
   downloadSQL table sqlCode
     = \<lparr>filename = table @ of_ascii ''_query.sql'', content = usv_string sqlCode,
        mime_type = of_ascii ''text/plain''\<rparr> \<and>
   file_bytes (generatePBIDS env table) = blob_bytes (JSON_stringify_2 (pbidsContent env table)) \<and>
   file_bytes (downloadDAX table daxCode) = blob_bytes daxCode \<and>
   file_bytes (downloadSQL table sqlCode) = blob_bytes sqlCode \<and>
   (\<forall>code. well_formed (usv_string code) \<and> length (usv_string code) = length code \<and>
      (\<forall>i < length code.
         usv_string code ! i = code ! i \<or>
         (is_surrogate (code ! i) \<and> usv_string code ! i = 0xFFFD)) \<and>
      (well_formed code \<longrightarrow> usv_string code = code))"
proof -
  have p: "usv_string (JSON_stringify_2 (pbidsContent env table))
             = JSON_stringify_2 (pbidsContent env table)"
    by (rule usv_string_well_formed[OF pbids_text_well_formed])
  have a: "generatePBIDS env table
     = \<lparr>filename = table @ of_ascii ''_dashboard.pbids'',
        content = JSON_stringify_2 (pbidsContent env table),
        mime_type = of_ascii ''application/json''\<rparr>"
    by (simp add: generatePBIDS_def p)
  have b: "content (generatePBIDS env table) = JSON_stringify_2 (pbidsContent env table)"
    by (simp add: a)
  have c: "file_bytes (downloadDAX table daxCode) = blob_bytes daxCode"
          "file_bytes (downloadSQL table sqlCode) = blob_bytes sqlCode"
    by (simp_all add: file_bytes_def downloadDAX_def downloadSQL_def blob_bytes_usv_string)
  have d: "\<forall>code. well_formed (usv_string code) \<and> length (usv_string code) = length code \<and>
      (\<forall>i < length code.
         usv_string code ! i = code ! i \<or>
         (is_surrogate (code ! i) \<and> usv_string code ! i = 0xFFFD)) \<and>
      (well_formed code \<longrightarrow> usv_string code = code)"
    using well_formed_usv_string length_usv_string usv_string_nth usv_string_well_formed
    by blast
  show ?thesis
    unfolding b pbids_text[symmetric]
    using a c d
    by (simp add: pbidsContent_def downloadDAX_def downloadSQL_def file_bytes_def)
qed

theorem export_artifacts_witness:
  "filename (generatePBIDS default_env (of_ascii ''transactions'')) = of_ascii ''transactions_dashboard.pbids'' \<and>
   content (generatePBIDS default_env (of_ascii ''transactions''))
     = of_ascii ''{'' @ nl
       @ of_ascii ''  '' @ dq @ of_ascii ''version'' @ dq @ of_ascii '': '' @ dq @ of_ascii ''1.0'' @ dq
         @ of_ascii '','' @ nl
       @ of_ascii ''  '' @ dq @ of_ascii ''connections'' @ dq @ of_ascii '': ['' @ nl
       @ of_ascii ''    {'' @ nl
       @ of_ascii ''      '' @ dq @ of_ascii ''filePath'' @ dq @ of_ascii '': '' @ dq
         @ of_ascii ''http://localhost:8000/api/dashboard/transactions/data'' @ dq @ of_ascii '','' @ nl
       @ of_ascii ''      '' @ dq @ of_ascii ''name'' @ dq @ of_ascii '': '' @ dq
         @ of_ascii ''transactions'' @ dq @ nl
       @ of_ascii ''    }'' @ nl
       @ of_ascii ''  ]'' @ nl
       @ of_ascii ''}'' \<and>
   filename (downloadDAX (of_ascii ''transactions'') (of_ascii ''M = 1'')) = of_ascii ''transactions_dashboard.dax'' \<and>
   well_formed (of_ascii ''M = 1'') \<and>
   content (downloadDAX (of_ascii ''transactions'') (of_ascii ''M = 1'')) = of_ascii ''M = 1'' \<and>
   filename (downloadSQL (of_ascii ''transactions'') (of_ascii ''SELECT 1'')) = of_ascii ''transactions_query.sql'' \<and>
   well_formed (of_ascii ''SELECT 1'') \<and>
   content (downloadSQL (of_ascii ''transactions'') (of_ascii ''SELECT 1'')) = of_ascii ''SELECT 1''"
proof -
  have w: "well_formed (of_ascii ''M = 1'')" "well_formed (of_ascii ''SELECT 1'')"
    by (rule well_formed_of_ascii)+
  show ?thesis
    using w
      export_artifacts[of default_env "of_ascii ''transactions''" "of_ascii ''M = 1''"
        "of_ascii ''SELECT 1''"]
    by (simp add: getApiBaseUrl_def env_truthy_def default_env_def quote_json_def escape_unit_def
        JSON_stringify_2_def is_surrogate_def is_high_surrogate_def is_low_surrogate_def
        of_ascii_def nl_def dq_def)
qed

section \<open>Fetching the schema\<close>

lemma schema_query_rows:
  "\<exists>rows. schema_query cat t = map schema_projection rows \<and>
          sorted (map cat_ordinal_position rows) \<and>
          mset rows = mset (filter (\<lambda>r. cat_table_name r = t) cat)"
proof -
  let ?rows = "sort_key cat_ordinal_position (filter (\<lambda>r. cat_table_name r = t) cat)"
  have "schema_query cat t = map schema_projection ?rows" by (simp add: schema_query_def)
  moreover have "sorted (map cat_ordinal_position ?rows)" by (rule sorted_sort_key)
  moreover have "mset ?rows = mset (filter (\<lambda>r. cat_table_name r = t) cat)" by (rule mset_sort)
  ultimately show ?thesis by blast
qed

lemma fetchTableSchema_statements:
  "statements (snd (fetchTableSchema t (st, db))) = statements db @ [(schema_query_text, [t])] \<and>
   information_schema_columns (snd (fetchTableSchema t (st, db))) = information_schema_columns db"
  by (simp add: fetchTableSchema_def dbs_raw_schema_def Let_def)

lemma schema_query_one_schema:
  assumes "\<forall>r \<in> set cat. cat_table_name r = t \<longrightarrow> cat_table_schema r = schema"
  shows "schema_query cat t = declared_columns cat schema t"
proof -
  have "filter (\<lambda>r. cat_table_name r = t) cat
          = filter (\<lambda>r. cat_table_schema r = schema \<and> cat_table_name r = t) cat"
    using assms by (intro filter_cong) auto
  then show ?thesis by (simp add: schema_query_def declared_columns_def)
qed

text \<open>
  C4 holds of a catalog in which the table name occurs in one schema only (the two
  lemmas above), and the fetch is one statement that writes nothing. It fails where a
  table of the same name exists in a second schema: the statement selects on the name
  alone, so the columns of both tables arrive, interleaved by position, and they are the
  triples of neither table. Here the state holds \<open>id, id, amount, changed_by\<close> for the
  table \<open>transactions\<close>, whose columns are \<open>id, amount\<close> in the schema \<open>public\<close> and
  \<open>id, changed_by\<close> in the schema \<open>audit\<close>.
\<close>

theorem schema_fetch_mixes_same_named_tables:
  "columns (fst (fetchTableSchema (of_ascii ''transactions'') (initial_state, two_schema_database)))
     = [id_row, id_row, amount_row, changed_by_row] \<and>
   declared_columns (information_schema_columns two_schema_database) (of_ascii ''public'')
       (of_ascii ''transactions'')
     = [id_row, amount_row] \<and>
   declared_columns (information_schema_columns two_schema_database) (of_ascii ''audit'')
       (of_ascii ''transactions'')
     = [id_row, changed_by_row] \<and>
   [id_row, id_row, amount_row, changed_by_row] \<noteq> [id_row, amount_row] \<and>
   statements (snd (fetchTableSchema (of_ascii ''transactions'') (initial_state, two_schema_database)))
     = [(schema_query_text, [of_ascii ''transactions''])]"
  by (simp add: fetchTableSchema_def dbs_raw_schema_def Let_def two_schema_database_def
      two_schema_catalog_def schema_query_def declared_columns_def schema_projection_def
      id_row_def amount_row_def changed_by_row_def of_ascii_def)

section \<open>Validation\<close>

lemma find_absent_Some:
  "find (\<lambda>n. n \<notin> set cols) ids = Some m \<Longrightarrow> m \<in> set ids \<and> m \<notin> set cols"
  by (auto simp: find_Some_iff in_set_conv_nth)

lemma find_absent_None:
  "find (\<lambda>n. n \<notin> set cols) ids = None \<longleftrightarrow> set ids \<subseteq> set cols"
  by (auto simp: find_None_iff)

text \<open>
  C1. Whatever the two extractors are: in a result that \<open>validate\<close> accepts, both texts
  can be tokenized and every identifier extracted from its SQL and from its DAX is a
  column name of the schema; and when both texts of a raw output can be tokenized and
  some extracted identifier is not a column name of the schema, the result is rejected
  with the reason \<open>UnknownColumn: <name>\<close> for an extracted identifier that is absent
  from the schema, which is that very identifier when it is the only absent one.
\<close>

theorem validate_grounds_identifiers:
  "(status (validate sql_identifiers dax_identifiers raw schema) = Accepted \<longrightarrow>
      (\<exists>xs ys.
         sql_identifiers (sql (validate sql_identifiers dax_identifiers raw schema)) = Some xs \<and>
         dax_identifiers (dax (validate sql_identifiers dax_identifiers raw schema)) = Some ys \<and>
         set xs \<subseteq> set (map name schema) \<and> set ys \<subseteq> set (map name schema))) \<and>
   (\<forall>xs ys n.
      sql_identifiers (sql_text raw) = Some xs \<and> dax_identifiers (dax_text raw) = Some ys \<and>
      n \<in> set (xs @ ys) \<and> n \<notin> set (map name schema) \<longrightarrow>
      status (validate sql_identifiers dax_identifiers raw schema) = Rejected \<and>
      (\<exists>m. m \<in> set (xs @ ys) \<and> m \<notin> set (map name schema) \<and>
           rejection_reason (validate sql_identifiers dax_identifiers raw schema)
             = Some (of_ascii ''UnknownColumn: '' @ m) \<and>
           ((\<forall>k \<in> set (xs @ ys). k \<notin> set (map name schema) \<longrightarrow> k = n) \<longrightarrow> m = n)))"
proof (intro conjI allI impI)
  assume acc: "status (validate sql_identifiers dax_identifiers raw schema) = Accepted"
  then obtain xs ys where
    xs: "sql_identifiers (sql_text raw) = Some xs" and ys: "dax_identifiers (dax_text raw) = Some ys"
    and f: "find (\<lambda>n. n \<notin> set (map name schema)) (xs @ ys) = None"
    by (auto simp: validate_def reject_def accept_def split: option.splits if_splits)
  have s: "sql (validate sql_identifiers dax_identifiers raw schema) = sql_text raw"
          "dax (validate sql_identifiers dax_identifiers raw schema) = dax_text raw"
    by (auto simp: validate_def reject_def accept_def split: option.splits)
  from f have "set (xs @ ys) \<subseteq> set (map name schema)" by (simp only: find_absent_None)
  then show "\<exists>xs ys.
         sql_identifiers (sql (validate sql_identifiers dax_identifiers raw schema)) = Some xs \<and>
         dax_identifiers (dax (validate sql_identifiers dax_identifiers raw schema)) = Some ys \<and>
         set xs \<subseteq> set (map name schema) \<and> set ys \<subseteq> set (map name schema)"
    using xs ys s by auto
next
  fix xs ys n
  assume h: "sql_identifiers (sql_text raw) = Some xs \<and> dax_identifiers (dax_text raw) = Some ys \<and>
      n \<in> set (xs @ ys) \<and> n \<notin> set (map name schema)"
  then have "\<not> set (xs @ ys) \<subseteq> set (map name schema)" by blast
  then have "find (\<lambda>n. n \<notin> set (map name schema)) (xs @ ys) \<noteq> None"
    using find_absent_None[of "map name schema" "xs @ ys"] by blast
  then obtain m where m: "find (\<lambda>n. n \<notin> set (map name schema)) (xs @ ys) = Some m"
    by blast
  have v: "validate sql_identifiers dax_identifiers raw schema
             = reject raw (of_ascii ''UnknownColumn: '' @ m)"
    using h m by (simp add: validate_def)
  show "status (validate sql_identifiers dax_identifiers raw schema) = Rejected"
    by (simp add: v reject_def)
  have "m \<in> set (xs @ ys) \<and> m \<notin> set (map name schema)" using find_absent_Some[OF m] .
  then show "\<exists>m. m \<in> set (xs @ ys) \<and> m \<notin> set (map name schema) \<and>
           rejection_reason (validate sql_identifiers dax_identifiers raw schema)
             = Some (of_ascii ''UnknownColumn: '' @ m) \<and>
           ((\<forall>k \<in> set (xs @ ys). k \<notin> set (map name schema) \<longrightarrow> k = n) \<longrightarrow> m = n)"
    by (intro exI[of _ m]) (simp add: v reject_def)
qed

theorem validate_grounds_identifiers_witness:
  "status (validate (\<lambda>s. Some []) bracketed_references grounded_output transactions_schema) = Accepted \<and>
   bracketed_references (dax (validate (\<lambda>s. Some []) bracketed_references grounded_output transactions_schema))
     = Some [of_ascii ''fraud_flag''] \<and>
   bracketed_references (dax_text hallucinated_output) = Some [of_ascii ''nonexistent_col''] \<and>
   of_ascii ''nonexistent_col'' \<notin> set (map name transactions_schema) \<and>
   status (validate (\<lambda>s. Some []) bracketed_references hallucinated_output transactions_schema) = Rejected \<and>
   rejection_reason (validate (\<lambda>s. Some []) bracketed_references hallucinated_output transactions_schema)
     = Some (of_ascii ''UnknownColumn: nonexistent_col'')"
proof -
  have a: "bracketed_references (dax_text hallucinated_output) = Some [of_ascii ''nonexistent_col'']"
    by (simp add: bracketed_references_def hallucinated_output_def of_ascii_def)
  have b: "of_ascii ''nonexistent_col'' \<notin> set (map name transactions_schema)"
    by (simp add: transactions_schema_def of_ascii_def)
  have c: "status (validate (\<lambda>s. Some []) bracketed_references grounded_output transactions_schema) = Accepted"
    by (simp add: validate_def accept_def reject_def bracketed_references_def grounded_output_def
        transactions_schema_def of_ascii_def)
  have d: "bracketed_references (dax (validate (\<lambda>s. Some []) bracketed_references grounded_output transactions_schema))
     = Some [of_ascii ''fraud_flag'']"
    by (simp add: validate_def accept_def reject_def bracketed_references_def grounded_output_def
        transactions_schema_def of_ascii_def)
  from validate_grounds_identifiers[of "\<lambda>s. Some []" bracketed_references hallucinated_output transactions_schema]
  have "status (validate (\<lambda>s. Some []) bracketed_references hallucinated_output transactions_schema) = Rejected \<and>
      (\<exists>m. m \<in> set ([] @ [of_ascii ''nonexistent_col'']) \<and>
           rejection_reason (validate (\<lambda>s. Some []) bracketed_references hallucinated_output transactions_schema)
             = Some (of_ascii ''UnknownColumn: '' @ m))"
    using a b by fastforce
  then show ?thesis using a b c d by (auto simp: of_ascii_def)
qed

end
